theory Spec2Isabelle
  imports Complex_Main "HOL-Library.Char_ord" "HOL-Library.List_Lexorder"
    "HOL-Library.Product_Lexorder" "HOL-Library.Log_Nat"
begin

section \<open>Numbers\<close>

text \<open>
  The fraud-ring detector of \<^verbatim>\<open>fraud_ring_detection.py\<close> keeps its data in a property
  graph and reads it back through Cypher queries. A number, in Python and in the store, is
  an integer or an IEEE 754 binary64 float. A finite float is given by its exact value
  (the two zeros are identified); every operation on floats rounds the exact result to the
  nearest float, ties to even, and overflows to an infinity. Integers are unbounded, as in
  Python (the sums of the store are taken to stay within its 64-bit integers).
\<close>

datatype double = Fin rat | PInf | NInf | NaN

definition pow2 :: "int \<Rightarrow> rat" where
  "pow2 e = (if e \<ge> 0 then 2 ^ nat e else 1 / 2 ^ nat (- e))"

definition floor_log2 :: "rat \<Rightarrow> int" where
  \<comment> \<open>The exponent \<open>e\<close> with \<open>2^e \<le> x < 2^(e+1)\<close>, for positive \<open>x\<close>.\<close>
  "floor_log2 x =
     (case quotient_of x of (p, q) \<Rightarrow>
        (let e = bitlen p - bitlen q in if pow2 e \<le> x then e else e - 1))"

definition round_half_even :: "rat \<Rightarrow> int" where
  "round_half_even q =
     (let f = \<lfloor>q\<rfloor>; r = q - of_int f
      in if r < 1 / 2 then f else if r > 1 / 2 then f + 1 else if even f then f else f + 1)"

definition round_to_double :: "rat \<Rightarrow> double" where
  \<comment> \<open>Rounding to binary64: 53 significant bits, exponents from -1022 (below that the
      spacing stays \<open>2^-1074\<close>) to 1023.\<close>
  "round_to_double x =
     (if x = 0 then Fin 0
      else
        (let e = max (floor_log2 \<bar>x\<bar>) (- 1022);
             ulp = pow2 (e - 52);
             m = round_half_even (x / ulp)
         in if e > 1023 \<or> (e = 1023 \<and> \<bar>m\<bar> \<ge> 9007199254740992)
            then (if x > 0 then PInf else NInf)
            else Fin (of_int m * ulp)))"

fun dadd :: "double \<Rightarrow> double \<Rightarrow> double" where
  "dadd (Fin a) (Fin b) = round_to_double (a + b)"
| "dadd NaN _ = NaN"
| "dadd _ NaN = NaN"
| "dadd PInf NInf = NaN"
| "dadd NInf PInf = NaN"
| "dadd PInf _ = PInf"
| "dadd _ PInf = PInf"
| "dadd NInf _ = NInf"
| "dadd _ NInf = NInf"



fun dless :: "double \<Rightarrow> double \<Rightarrow> bool" where
  \<comment> \<open>\<^verbatim>\<open>a < b\<close>; false when an operand is NaN.\<close>
  "dless (Fin a) (Fin b) = (a < b)"
| "dless NaN _ = False"
| "dless _ NaN = False"
| "dless NInf NInf = False"
| "dless NInf _ = True"
| "dless PInf _ = False"
| "dless _ PInf = True"
| "dless _ NInf = False"

datatype num = I int | D double

fun exact :: "num \<Rightarrow> double" where
  \<comment> \<open>The value of a number; comparisons of an integer with a float are exact.\<close>
  "exact (I n) = Fin (of_int n)"
| "exact (D d) = d"

fun to_double :: "num \<Rightarrow> double" where
  \<comment> \<open>The conversion of an operand to float, which rounds a large integer.\<close>
  "to_double (I n) = round_to_double (of_int n)"
| "to_double (D d) = d"

definition float_lit :: "rat \<Rightarrow> num" where
  \<comment> \<open>A float literal of the source, such as \<^verbatim>\<open>0.3\<close>.\<close>
  "float_lit x = D (round_to_double x)"

fun num_add :: "num \<Rightarrow> num \<Rightarrow> num" where
  \<comment> \<open>\<^verbatim>\<open>a + b\<close> in Python and in Cypher.\<close>
  "num_add (I a) (I b) = I (a + b)"
| "num_add a b = D (dadd (to_double a) (to_double b))"




definition num_less :: "num \<Rightarrow> num \<Rightarrow> bool" where
  "num_less a b = dless (exact a) (exact b)"

definition num_eq :: "num \<Rightarrow> num \<Rightarrow> bool" where
  \<comment> \<open>\<^verbatim>\<open>a = b\<close> on numbers: equal values, and NaN equals nothing.\<close>
  "num_eq a b = (exact a = exact b \<and> exact a \<noteq> NaN)"

definition py_min :: "num \<Rightarrow> num \<Rightarrow> num" where
  \<comment> \<open>Python's \<^verbatim>\<open>min(a, b)\<close>: the second argument only when it is smaller.\<close>
  "py_min a b = (if num_less b a then b else a)"

fun truthy_num :: "num \<Rightarrow> bool" where
  "truthy_num (I n) = (n \<noteq> 0)"
| "truthy_num (D (Fin x)) = (x \<noteq> 0)"
| "truthy_num (D _) = True"

section \<open>Values and Python helpers\<close>

text \<open>
  Strings are \<open>string\<close>, ordered by code point. A value that reaches Python from a query
  column and is only tested for truthiness there (\<^verbatim>\<open>record['name1'] or 'Unknown'\<close>) is a
  \<open>val\<close>, with \<open>Null\<close> for Cypher's null.
\<close>

datatype val = Null | S string | N num

fun truthy :: "val \<Rightarrow> bool" where
  "truthy Null = False"
| "truthy (S s) = (s \<noteq> [])"
| "truthy (N r) = truthy_num r"

definition py_or :: "val \<Rightarrow> val \<Rightarrow> val" where
  \<comment> \<open>Python's \<^verbatim>\<open>v or d\<close>.\<close>
  "py_or v d = (if truthy v then v else d)"

definition dict_get :: "'a option \<Rightarrow> 'a \<Rightarrow> 'a" where
  \<comment> \<open>\<^verbatim>\<open>d.get(key, default)\<close>, where \<open>None\<close> says that the key is absent.\<close>
  "dict_get field dflt = (case field of None \<Rightarrow> dflt | Some v \<Rightarrow> v)"

definition record_get :: "(string \<rightharpoonup> num) \<Rightarrow> string \<Rightarrow> num \<Rightarrow> num" where
  \<comment> \<open>\<^verbatim>\<open>record.get(key, default)\<close> on the numeric columns of a query record.\<close>
  "record_get row key dflt = (case row key of None \<Rightarrow> dflt | Some v \<Rightarrow> v)"

datatype error = ConstraintViolation | QueryError

section \<open>Input documents\<close>

text \<open>
  The loader receives three lists of dictionaries. A field is \<open>None\<close> when the
  dictionary has no such key. A claim's \<^verbatim>\<open>fraudScore\<close> key may also be present and hold
  Python's \<^verbatim>\<open>None\<close> (\<open>Some None\<close>), which the graph stores as a missing property.
\<close>

record user_doc =
  uid :: "string option"
  id_key :: "string option"
  email :: "string option"
  phone :: "string option"
  displayName :: "string option"
  insured_sex :: "string option"
  insured_age :: "num option"
  insured_occupation :: "string option"
  address :: "string option"

record policy_doc =
  policyId :: "string option"
  policyName :: "string option"
  insurance_type :: "string option"
  policy_term :: "string option"
  policy_start_date :: "string option"
  policy_end_date :: "string option"
  policy_annual_premium :: "num option"
  sum_insured :: "num option"
  policy_state :: "string option"
  policy_city :: "string option"
  holderName :: "string option"
  userId :: "string option"

record claim_doc =
  claimId :: "string option"
  policyId :: "string option"
  claimType :: "string option"
  claimAmount :: "num option"
  status :: "string option"
  submittedDate :: "string option"
  incidentDate :: "string option"
  description :: "string option"
  insurance_type :: "string option"
  incident_time :: "string option"
  accident_location :: "string option"
  hospital_name :: "string option"
  auto_make :: "string option"
  auto_model :: "string option"
  auto_year :: "num option"
  userId :: "string option"
  fraudScore :: "num option option"
  riskLevel :: "string option"

section \<open>The property graph\<close>

record user_node =
  userId :: string
  email :: string
  phone :: string
  displayName :: string
  insured_sex :: string
  insured_age :: num
  insured_occupation :: string
  address :: string
  createdAt :: string

record policy_node =
  policyId :: string
  policyName :: string
  insurance_type :: string
  policy_term :: string
  policy_start_date :: string
  policy_end_date :: string
  policy_annual_premium :: num
  sum_insured :: num
  policy_state :: string
  policy_city :: string
  holderName :: string
  userId :: string

record claim_node =
  claimId :: string
  policyId :: string
  claimType :: string
  claimAmount :: num
  status :: string
  submittedDate :: string
  incidentDate :: string
  description :: string
  insurance_type :: string
  incident_time :: string
  accident_location :: string
  hospital_name :: string
  auto_make :: string
  auto_model :: string
  auto_year :: num
  userId :: string
  fraudScore :: "num option"
  riskLevel :: string

text \<open>
  A node is identified by its position in the list of its label; a relationship is a pair
  of positions, and the same pair may occur several times. The three flags say whether
  \<^verbatim>\<open>create_schema\<close> has installed the uniqueness constraint of each label.
\<close>

record graph =
  user_nodes :: "user_node list"
  policy_nodes :: "policy_node list"
  claim_nodes :: "claim_node list"
  owns_rels :: "(nat \<times> nat) list"
  has_claim_rels :: "(nat \<times> nat) list"
  filed_rels :: "(nat \<times> nat) list"
  user_id_unique :: bool
  policy_id_unique :: bool
  claim_id_unique :: bool

definition user_properties :: "user_node \<Rightarrow> (string \<times> val) list" where
  \<comment> \<open>The property map of \<^verbatim>\<open>CREATE (u:User {...})\<close>.\<close>
  "user_properties u =
     [(''userId'', S (user_node.userId u)),
      (''email'', S (user_node.email u)),
      (''phone'', S (user_node.phone u)),
      (''displayName'', S (user_node.displayName u)),
      (''insured_sex'', S (user_node.insured_sex u)),
      (''insured_age'', N (user_node.insured_age u)),
      (''insured_occupation'', S (user_node.insured_occupation u)),
      (''address'', S (user_node.address u)),
      (''createdAt'', S (user_node.createdAt u))]"

definition user_prop :: "user_node \<Rightarrow> string \<Rightarrow> val" where
  \<comment> \<open>Cypher's \<^verbatim>\<open>u.key\<close>: null when the node has no such property.\<close>
  "user_prop u key = (case map_of (user_properties u) key of None \<Rightarrow> Null | Some v \<Rightarrow> v)"

definition matching :: "('a \<Rightarrow> bool) \<Rightarrow> 'a list \<Rightarrow> nat list" where
  \<comment> \<open>The positions of the nodes that a \<^verbatim>\<open>MATCH (n {key: $value})\<close> finds.\<close>
  "matching P xs = filter (\<lambda>i. P (xs ! i)) [0..<length xs]"

section \<open>Schema and loader\<close>

definition create_schema :: "graph \<Rightarrow> graph" where
  \<comment> \<open>A constraint is installed unless the data already violates it; the failure is
      logged and swallowed. Indexes do not change any result.\<close>
  "create_schema g =
     g\<lparr>user_id_unique :=
          user_id_unique g \<or> distinct (map user_node.userId (user_nodes g)),
       policy_id_unique :=
          policy_id_unique g \<or> distinct (map policy_node.policyId (policy_nodes g)),
       claim_id_unique :=
          claim_id_unique g \<or> distinct (map claim_node.claimId (claim_nodes g))\<rparr>"

definition detach_delete_all :: "graph \<Rightarrow> graph" where
  \<comment> \<open>\<^verbatim>\<open>MATCH (n) DETACH DELETE n\<close>\<close>
  "detach_delete_all g =
     g\<lparr>user_nodes := [], policy_nodes := [], claim_nodes := [],
       owns_rels := [], has_claim_rels := [], filed_rels := []\<rparr>"

definition create_user_node :: "string \<Rightarrow> user_doc \<Rightarrow> graph \<Rightarrow> error + graph" where
  \<comment> \<open>The first argument is the value of \<^verbatim>\<open>datetime.now().isoformat()\<close>.\<close>
  "create_user_node now user g =
     (let node = \<lparr>user_node.userId = dict_get (uid user) (dict_get (id_key user) ''''),
                  user_node.email = dict_get (user_doc.email user) '''',
                  user_node.phone = dict_get (user_doc.phone user) '''',
                  user_node.displayName = dict_get (user_doc.displayName user) '''',
                  user_node.insured_sex = dict_get (user_doc.insured_sex user) '''',
                  user_node.insured_age = dict_get (user_doc.insured_age user) (I 0),
                  user_node.insured_occupation = dict_get (user_doc.insured_occupation user) '''',
                  user_node.address = dict_get (user_doc.address user) '''',
                  user_node.createdAt = now\<rparr>
      in if user_id_unique g \<and> user_node.userId node \<in> set (map user_node.userId (user_nodes g))
         then Inl ConstraintViolation
         else Inr (g\<lparr>user_nodes := user_nodes g @ [node]\<rparr>))"

definition create_policy_node :: "policy_doc \<Rightarrow> graph \<Rightarrow> error + graph" where
  "create_policy_node policy g =
     (let node = \<lparr>policy_node.policyId = dict_get (policy_doc.policyId policy) '''',
                  policy_node.policyName = dict_get (policy_doc.policyName policy) '''',
                  policy_node.insurance_type = dict_get (policy_doc.insurance_type policy) '''',
                  policy_node.policy_term = dict_get (policy_doc.policy_term policy) '''',
                  policy_node.policy_start_date = dict_get (policy_doc.policy_start_date policy) '''',
                  policy_node.policy_end_date = dict_get (policy_doc.policy_end_date policy) '''',
                  policy_node.policy_annual_premium = dict_get (policy_doc.policy_annual_premium policy) (I 0),
                  policy_node.sum_insured = dict_get (policy_doc.sum_insured policy) (I 0),
                  policy_node.policy_state = dict_get (policy_doc.policy_state policy) '''',
                  policy_node.policy_city = dict_get (policy_doc.policy_city policy) '''',
                  policy_node.holderName = dict_get (policy_doc.holderName policy) '''',
                  policy_node.userId = dict_get (policy_doc.userId policy) ''''\<rparr>
      in if policy_id_unique g
            \<and> policy_node.policyId node \<in> set (map policy_node.policyId (policy_nodes g))
         then Inl ConstraintViolation
         else Inr (g\<lparr>policy_nodes := policy_nodes g @ [node]\<rparr>))"

definition create_claim_node :: "claim_doc \<Rightarrow> graph \<Rightarrow> error + graph" where
  "create_claim_node claim g =
     (let node = \<lparr>claim_node.claimId = dict_get (claim_doc.claimId claim) '''',
                  claim_node.policyId = dict_get (claim_doc.policyId claim) '''',
                  claim_node.claimType = dict_get (claim_doc.claimType claim) '''',
                  claim_node.claimAmount = dict_get (claim_doc.claimAmount claim) (I 0),
                  claim_node.status = dict_get (claim_doc.status claim) '''',
                  claim_node.submittedDate = dict_get (claim_doc.submittedDate claim) '''',
                  claim_node.incidentDate = dict_get (claim_doc.incidentDate claim) '''',
                  claim_node.description = dict_get (claim_doc.description claim) '''',
                  claim_node.insurance_type = dict_get (claim_doc.insurance_type claim) '''',
                  claim_node.incident_time = dict_get (claim_doc.incident_time claim) '''',
                  claim_node.accident_location = dict_get (claim_doc.accident_location claim) '''',
                  claim_node.hospital_name = dict_get (claim_doc.hospital_name claim) '''',
                  claim_node.auto_make = dict_get (claim_doc.auto_make claim) '''',
                  claim_node.auto_model = dict_get (claim_doc.auto_model claim) '''',
                  claim_node.auto_year = dict_get (claim_doc.auto_year claim) (I 0),
                  claim_node.userId = dict_get (claim_doc.userId claim) '''',
                  claim_node.fraudScore = dict_get (claim_doc.fraudScore claim) (Some (I 0)),
                  claim_node.riskLevel = dict_get (claim_doc.riskLevel claim) ''''\<rparr>
      in if claim_id_unique g
            \<and> claim_node.claimId node \<in> set (map claim_node.claimId (claim_nodes g))
         then Inl ConstraintViolation
         else Inr (g\<lparr>claim_nodes := claim_nodes g @ [node]\<rparr>))"

fun for_each :: "('a \<Rightarrow> graph \<Rightarrow> error + graph) \<Rightarrow> 'a list \<Rightarrow> graph \<Rightarrow> error + graph" where
  \<comment> \<open>A loop over the input that re-raises the first exception.\<close>
  "for_each f [] g = Inr g"
| "for_each f (x # xs) g = (case f x g of Inl e \<Rightarrow> Inl e | Inr g' \<Rightarrow> for_each f xs g')"

definition create_owns :: "policy_doc \<Rightarrow> graph \<Rightarrow> graph" where
  "create_owns policy g =
     g\<lparr>owns_rels := owns_rels g @
        List.product
          (matching (\<lambda>u. user_node.userId u = dict_get (policy_doc.userId policy) '''') (user_nodes g))
          (matching (\<lambda>p. policy_node.policyId p = dict_get (policy_doc.policyId policy) '''') (policy_nodes g))\<rparr>"

definition create_has_claim :: "claim_doc \<Rightarrow> graph \<Rightarrow> graph" where
  "create_has_claim claim g =
     g\<lparr>has_claim_rels := has_claim_rels g @
        List.product
          (matching (\<lambda>p. policy_node.policyId p = dict_get (claim_doc.policyId claim) '''') (policy_nodes g))
          (matching (\<lambda>c. claim_node.claimId c = dict_get (claim_doc.claimId claim) '''') (claim_nodes g))\<rparr>"

definition create_filed :: "claim_doc \<Rightarrow> graph \<Rightarrow> graph" where
  "create_filed claim g =
     g\<lparr>filed_rels := filed_rels g @
        List.product
          (matching (\<lambda>u. user_node.userId u = dict_get (claim_doc.userId claim) '''') (user_nodes g))
          (matching (\<lambda>c. claim_node.claimId c = dict_get (claim_doc.claimId claim) '''') (claim_nodes g))\<rparr>"

definition create_relationships :: "policy_doc list \<Rightarrow> claim_doc list \<Rightarrow> graph \<Rightarrow> graph" where
  "create_relationships policies_data claims_data g =
     fold create_filed claims_data
       (fold create_has_claim claims_data
          (fold create_owns policies_data g))"

definition load_data_from_firestore ::
  "(nat \<Rightarrow> string) \<Rightarrow> user_doc list \<Rightarrow> policy_doc list \<Rightarrow> claim_doc list \<Rightarrow> graph
     \<Rightarrow> error + graph" where
  \<comment> \<open>\<open>clock k\<close> is the time at which the \<open>k\<close>-th user node is created.\<close>
  "load_data_from_firestore clock users_data policies_data claims_data g =
     (case for_each (\<lambda>(k, user). create_user_node (clock k) user)
             (zip [0..<length users_data] users_data) (detach_delete_all g) of
        Inl e \<Rightarrow> Inl e
      | Inr g1 \<Rightarrow>
     (case for_each create_policy_node policies_data g1 of
        Inl e \<Rightarrow> Inl e
      | Inr g2 \<Rightarrow>
     (case for_each create_claim_node claims_data g2 of
        Inl e \<Rightarrow> Inl e
      | Inr g3 \<Rightarrow> Inr (create_relationships policies_data claims_data g3))))"

definition node_count :: "graph \<Rightarrow> nat" where
  "node_count g = length (user_nodes g) + length (policy_nodes g) + length (claim_nodes g)"

definition edge_count :: "graph \<Rightarrow> nat" where
  "edge_count g = length (owns_rels g) + length (has_claim_rels g) + length (filed_rels g)"

section \<open>Networks\<close>

datatype details =
    PhoneDetails string nat nat num num
  | PolicyDetails string string string num num nat nat
  | ClaimDetails string string string num string string

record network =
  net_type :: string
  users :: "string list"
  user_names :: "val list"
  user_emails :: "val list"
  shared_attribute :: string
  risk_score :: num
  details :: details

definition calculate_network_risk_score :: "(string \<rightharpoonup> num) \<Rightarrow> num" where
  "calculate_network_risk_score row =
     (let base_score = float_lit (3 / 10);
          claims_count = num_add (record_get row ''claims_count1'' (I 0))
                                 (record_get row ''claims_count2'' (I 0));
          base_score = (if num_less (I 5) claims_count
                        then num_add base_score (float_lit (3 / 10))
                        else if num_less (I 2) claims_count
                        then num_add base_score (float_lit (2 / 10))
                        else base_score);
          total_amount = num_add (record_get row ''total_amount1'' (I 0))
                                 (record_get row ''total_amount2'' (I 0));
          base_score = (if num_less (I 1000000) total_amount
                        then num_add base_score (float_lit (3 / 10))
                        else if num_less (I 500000) total_amount
                        then num_add base_score (float_lit (2 / 10))
                        else base_score)
      in py_min base_score (float_lit 1))"

definition count_bonus :: "num \<Rightarrow> rat" where
  "count_bonus combined_count =
     (if num_less (I 5) combined_count then 3 / 10
      else if num_less (I 2) combined_count then 2 / 10 else 0)"

definition amount_bonus :: "num \<Rightarrow> rat" where
  "amount_bonus combined_total =
     (if num_less (I 1000000) combined_total then 3 / 10
      else if num_less (I 500000) combined_total then 2 / 10 else 0)"

definition risk_formula :: "num \<Rightarrow> num \<Rightarrow> rat" where
  \<comment> \<open>The risk-score formula in the words of the specification, as an exact value.\<close>
  "risk_formula combined_count combined_total =
     max 0 (min 1 (3 / 10 + count_bonus combined_count + amount_bonus combined_total))"

subsection \<open>Phone-network detector\<close>

text \<open>
  A query is evaluated over the relationship lists in a fixed order (the store promises no
  order). \<open>owner_claim_paths\<close> are the matches of
  \<^verbatim>\<open>(u:User)-[:OWNS]->(p:Policy)-[:HAS_CLAIM]->(c:Claim)\<close>.
\<close>

definition owner_claim_paths :: "graph \<Rightarrow> (nat \<times> nat \<times> nat) list" where
  "owner_claim_paths g =
     [(u, p, c). (u, p) \<leftarrow> owns_rels g, (p', c) \<leftarrow> has_claim_rels g, p' = p]"

definition phone_matches :: "graph \<Rightarrow> (nat \<times> nat \<times> nat \<times> nat) list" where
  "phone_matches g =
     [(u1, u2, c1, c2).
        (u1, p1, c1) \<leftarrow> owner_claim_paths g,
        (u2, p2, c2) \<leftarrow> owner_claim_paths g,
        user_node.phone (user_nodes g ! u1) = user_node.phone (user_nodes g ! u2)
        \<and> user_node.userId (user_nodes g ! u1) \<noteq> user_node.userId (user_nodes g ! u2)
        \<and> user_node.phone (user_nodes g ! u1) \<noteq> '''']"

definition total_claim_amount :: "graph \<Rightarrow> nat list \<Rightarrow> num" where
  \<comment> \<open>\<^verbatim>\<open>reduce(total = 0, claim in claims | total + claim.claimAmount)\<close>, summed in the
      order of the list.\<close>
  "total_claim_amount g claims =
     fold (\<lambda>claim total. num_add total (claim_node.claimAmount (claim_nodes g ! claim)))
       claims (I 0)"

record phone_row =
  user1 :: string
  name1 :: val
  email1 :: val
  user2 :: string
  name2 :: val
  email2 :: val
  phone :: string
  claims_count1 :: nat
  claims_count2 :: nat
  total_amount1 :: num
  total_amount2 :: num

definition phone_query :: "graph \<Rightarrow> phone_row list" where
  "phone_query g =
     (let rows = phone_matches g in
      map (\<lambda>(u1, u2, claims1, claims2).
             \<lparr>phone_row.user1 = user_node.userId (user_nodes g ! u1),
              phone_row.name1 = user_prop (user_nodes g ! u1) ''displayName'',
              phone_row.email1 = user_prop (user_nodes g ! u1) ''email'',
              phone_row.user2 = user_node.userId (user_nodes g ! u2),
              phone_row.name2 = user_prop (user_nodes g ! u2) ''displayName'',
              phone_row.email2 = user_prop (user_nodes g ! u2) ''email'',
              phone_row.phone = user_node.phone (user_nodes g ! u1),
              phone_row.claims_count1 = length claims1,
              phone_row.claims_count2 = length claims2,
              phone_row.total_amount1 = total_claim_amount g claims1,
              phone_row.total_amount2 = total_claim_amount g claims2\<rparr>)
        (filter (\<lambda>(u1, u2, claims1, claims2). length claims1 > 0 \<and> length claims2 > 0)
           (map (\<lambda>(u1, u2).
                   (u1, u2,
                    remdups [c1. (a, b, c1, c2) \<leftarrow> rows, a = u1 \<and> b = u2],
                    remdups [c2. (a, b, c1, c2) \<leftarrow> rows, a = u1 \<and> b = u2]))
              (remdups (map (\<lambda>(u1, u2, c1, c2). (u1, u2)) rows)))))"

definition phone_columns :: "phone_row \<Rightarrow> (string \<rightharpoonup> num)" where
  \<comment> \<open>The numeric columns of a record of the phone query.\<close>
  "phone_columns row =
     [''claims_count1'' \<mapsto> I (int (phone_row.claims_count1 row)),
      ''claims_count2'' \<mapsto> I (int (phone_row.claims_count2 row)),
      ''total_amount1'' \<mapsto> phone_row.total_amount1 row,
      ''total_amount2'' \<mapsto> phone_row.total_amount2 row]"

definition phone_network :: "phone_row \<Rightarrow> network" where
  "phone_network row =
     \<lparr>net_type = ''phone_network'',
      users = [phone_row.user1 row, phone_row.user2 row],
      user_names = [py_or (phone_row.name1 row) (S ''Unknown''),
                    py_or (phone_row.name2 row) (S ''Unknown'')],
      user_emails = [py_or (phone_row.email1 row) (S ''No email''),
                     py_or (phone_row.email2 row) (S ''No email'')],
      shared_attribute = phone_row.phone row,
      risk_score = calculate_network_risk_score (phone_columns row),
      details = PhoneDetails (phone_row.phone row)
                  (phone_row.claims_count1 row) (phone_row.claims_count2 row)
                  (phone_row.total_amount1 row) (phone_row.total_amount2 row)\<rparr>"

definition detect_phone_networks :: "graph \<Rightarrow> network list" where
  "detect_phone_networks g = map phone_network (phone_query g)"

subsection \<open>Policy-network detector\<close>

definition policy_pairs :: "graph \<Rightarrow> (nat \<times> nat \<times> nat \<times> nat) list" where
  "policy_pairs g =
     [(u1, p1, u2, p2).
        (u1, p1) \<leftarrow> owns_rels g,
        (u2, p2) \<leftarrow> owns_rels g,
        user_node.userId (user_nodes g ! u1) \<noteq> user_node.userId (user_nodes g ! u2)
        \<and> policy_node.insurance_type (policy_nodes g ! p1)
            = policy_node.insurance_type (policy_nodes g ! p2)
        \<and> num_eq (policy_annual_premium (policy_nodes g ! p1))
                  (policy_annual_premium (policy_nodes g ! p2))
        \<and> num_eq (policy_node.sum_insured (policy_nodes g ! p1))
                  (policy_node.sum_insured (policy_nodes g ! p2))
        \<and> num_less (I 0) (policy_annual_premium (policy_nodes g ! p1))]"

definition policy_matches :: "graph \<Rightarrow> ((nat \<times> nat \<times> nat \<times> nat) \<times> nat \<times> nat) list" where
  "policy_matches g =
     [((u1, u2, p1, p2), c1, c2).
        (u1, p1, u2, p2) \<leftarrow> policy_pairs g,
        (q1, c1) \<leftarrow> has_claim_rels g, q1 = p1,
        (q2, c2) \<leftarrow> has_claim_rels g, q2 = p2]"

record policy_row =
  user1 :: string
  user2 :: string
  name1 :: val
  name2 :: val
  email1 :: val
  email2 :: val
  policy1 :: string
  policy2 :: string
  insurance_type :: string
  premium :: num
  sum_insured :: num
  claims_count1 :: nat
  claims_count2 :: nat

definition policy_query :: "graph \<Rightarrow> policy_row list" where
  "policy_query g =
     (let rows = policy_matches g in
      map (\<lambda>((u1, u2, p1, p2), claims1, claims2).
             \<lparr>policy_row.user1 = user_node.userId (user_nodes g ! u1),
              policy_row.user2 = user_node.userId (user_nodes g ! u2),
              policy_row.name1 = user_prop (user_nodes g ! u1) ''name'',
              policy_row.name2 = user_prop (user_nodes g ! u2) ''name'',
              policy_row.email1 = user_prop (user_nodes g ! u1) ''email'',
              policy_row.email2 = user_prop (user_nodes g ! u2) ''email'',
              policy_row.policy1 = policy_node.policyId (policy_nodes g ! p1),
              policy_row.policy2 = policy_node.policyId (policy_nodes g ! p2),
              policy_row.insurance_type = policy_node.insurance_type (policy_nodes g ! p1),
              policy_row.premium = policy_annual_premium (policy_nodes g ! p1),
              policy_row.sum_insured = policy_node.sum_insured (policy_nodes g ! p1),
              policy_row.claims_count1 = length claims1,
              policy_row.claims_count2 = length claims2\<rparr>)
        (filter (\<lambda>(k, claims1, claims2). length claims1 > 0 \<and> length claims2 > 0)
           (map (\<lambda>k. (k, remdups [c1. (k', c1, c2) \<leftarrow> rows, k' = k],
                          remdups [c2. (k', c1, c2) \<leftarrow> rows, k' = k]))
              (remdups (map fst rows)))))"

definition policy_columns :: "policy_row \<Rightarrow> (string \<rightharpoonup> num)" where
  \<comment> \<open>The numeric columns of a record of the policy query.\<close>
  "policy_columns row =
     [''premium'' \<mapsto> policy_row.premium row,
      ''sum_insured'' \<mapsto> policy_row.sum_insured row,
      ''claims_count1'' \<mapsto> I (int (policy_row.claims_count1 row)),
      ''claims_count2'' \<mapsto> I (int (policy_row.claims_count2 row))]"

definition policy_network :: "policy_row \<Rightarrow> network" where
  "policy_network row =
     \<lparr>net_type = ''policy_network'',
      users = [policy_row.user1 row, policy_row.user2 row],
      user_names = [py_or (policy_row.name1 row) (S ''Unknown''),
                    py_or (policy_row.name2 row) (S ''Unknown'')],
      user_emails = [py_or (policy_row.email1 row) (S ''No email''),
                     py_or (policy_row.email2 row) (S ''No email'')],
      shared_attribute = ''Same '' @ policy_row.insurance_type row @ '' policy details'',
      risk_score = calculate_network_risk_score (policy_columns row),
      details = PolicyDetails (policy_row.policy1 row) (policy_row.policy2 row)
                  (policy_row.insurance_type row) (policy_row.premium row)
                  (policy_row.sum_insured row)
                  (policy_row.claims_count1 row) (policy_row.claims_count2 row)\<rparr>"

definition detect_policy_networks :: "graph \<Rightarrow> network list" where
  "detect_policy_networks g = map policy_network (policy_query g)"

subsection \<open>Claim-network detector\<close>

definition claim_pairs :: "graph \<Rightarrow> (nat \<times> nat \<times> nat \<times> nat) list" where
  "claim_pairs g =
     [(u1, c1, u2, c2).
        (u1, c1) \<leftarrow> filed_rels g,
        (u2, c2) \<leftarrow> filed_rels g,
        user_node.userId (user_nodes g ! u1) \<noteq> user_node.userId (user_nodes g ! u2)
        \<and> claimType (claim_nodes g ! c1) = claimType (claim_nodes g ! c2)
        \<and> num_eq (claim_node.claimAmount (claim_nodes g ! c1))
                  (claim_node.claimAmount (claim_nodes g ! c2))
        \<and> claim_node.incidentDate (claim_nodes g ! c1) = claim_node.incidentDate (claim_nodes g ! c2)
        \<and> num_less (I 0) (claim_node.claimAmount (claim_nodes g ! c1))]"

definition claim_matches :: "graph \<Rightarrow> (nat \<times> nat \<times> nat \<times> nat \<times> nat \<times> nat) list" where
  "claim_matches g =
     [(u1, u2, c1, c2, p1, p2).
        (u1, c1, u2, c2) \<leftarrow> claim_pairs g,
        (p1, d1) \<leftarrow> has_claim_rels g, d1 = c1,
        (p2, d2) \<leftarrow> has_claim_rels g, d2 = c2,
        policy_node.insurance_type (policy_nodes g ! p1)
          = policy_node.insurance_type (policy_nodes g ! p2)]"

record claim_row =
  user1 :: string
  user2 :: string
  name1 :: val
  name2 :: val
  email1 :: val
  email2 :: val
  claim1 :: string
  claim2 :: string
  claim_type :: string
  claim_amount :: num
  incident_date :: string
  insurance_type :: string

definition claim_query :: "graph \<Rightarrow> claim_row list" where
  "claim_query g =
     map (\<lambda>(u1, u2, c1, c2, p1, p2).
            \<lparr>claim_row.user1 = user_node.userId (user_nodes g ! u1),
             claim_row.user2 = user_node.userId (user_nodes g ! u2),
             claim_row.name1 = user_prop (user_nodes g ! u1) ''name'',
             claim_row.name2 = user_prop (user_nodes g ! u2) ''name'',
             claim_row.email1 = user_prop (user_nodes g ! u1) ''email'',
             claim_row.email2 = user_prop (user_nodes g ! u2) ''email'',
             claim_row.claim1 = claim_node.claimId (claim_nodes g ! c1),
             claim_row.claim2 = claim_node.claimId (claim_nodes g ! c2),
             claim_row.claim_type = claimType (claim_nodes g ! c1),
             claim_row.claim_amount = claim_node.claimAmount (claim_nodes g ! c1),
             claim_row.incident_date = claim_node.incidentDate (claim_nodes g ! c1),
             claim_row.insurance_type = policy_node.insurance_type (policy_nodes g ! p1)\<rparr>)
       (claim_matches g)"

definition claim_network :: "claim_row \<Rightarrow> network" where
  "claim_network row =
     \<lparr>net_type = ''claim_network'',
      users = [claim_row.user1 row, claim_row.user2 row],
      user_names = [py_or (claim_row.name1 row) (S ''Unknown''),
                    py_or (claim_row.name2 row) (S ''Unknown'')],
      user_emails = [py_or (claim_row.email1 row) (S ''No email''),
                     py_or (claim_row.email2 row) (S ''No email'')],
      shared_attribute = ''Identical '' @ claim_row.claim_type row @ '' claim'',
      risk_score = float_lit (9 / 10),
      details = ClaimDetails (claim_row.claim1 row) (claim_row.claim2 row)
                  (claim_row.claim_type row) (claim_row.claim_amount row)
                  (claim_row.incident_date row) (claim_row.insurance_type row)\<rparr>"

definition detect_claim_networks :: "graph \<Rightarrow> network list" where
  "detect_claim_networks g = map claim_network (claim_query g)"

subsection \<open>Aggregation\<close>




section \<open>Indicator analyzer\<close>

definition collect_by :: "('k \<times> 'v) list \<Rightarrow> ('k \<times> 'v list) list" where
  \<comment> \<open>\<^verbatim>\<open>WITH k, collect(v)\<close>: one group for each distinct key, with all the values of its rows.\<close>
  "collect_by rows = map (\<lambda>k. (k, [v. (k', v) \<leftarrow> rows, k' = k])) (remdups (map fst rows))"




record fraud_user =
  userId :: string
  email :: string
  phone :: string
  claim_count :: nat
  avg_fraud_score :: "num option"
  total_amount :: num








record 't rapid_row =
  userId :: string
  email :: string
  phone :: string
  claim_count :: nat
  total_amount :: num
  latest_date :: 't
  earliest_date :: 't



record fallback_row =
  userId :: string
  email :: string
  phone :: string
  claim_count :: nat
  total_amount :: num
  filed_dates :: "string list"



record rapid_filer =
  userId :: string
  email :: string
  phone :: string
  claim_count :: nat
  total_amount :: num



section \<open>Risk scorer\<close>

record risk_row =
  userId :: string
  displayName :: val
  email :: val
  claim_count :: nat
  avg_fraud_score :: "num option"
  total_amount :: num
  max_claim_amount :: num


record risk_entry =
  overall_risk :: num
  claim_count :: nat
  avg_fraud_score :: num
  total_amount :: num
  max_claim_amount :: num
  displayName :: val
  email :: val




definition erase_time :: "graph \<Rightarrow> graph" where
  \<comment> \<open>The graph without the creation times of its user nodes, the one property that
      differs between two loads of the same input.\<close>
  "erase_time g = g\<lparr>user_nodes := map (\<lambda>u. u\<lparr>createdAt := []\<rparr>) (user_nodes g)\<rparr>"




section \<open>A sample data set\<close>

definition fresh_graph :: graph where
  \<comment> \<open>An empty store on which \<^verbatim>\<open>create_schema\<close> has run.\<close>
  "fresh_graph =
     create_schema
       \<lparr>user_nodes = [], policy_nodes = [], claim_nodes = [],
        owns_rels = [], has_claim_rels = [], filed_rels = [],
        user_id_unique = False, policy_id_unique = False, claim_id_unique = False\<rparr>"

definition sample_user :: "string \<Rightarrow> string \<Rightarrow> user_doc" where
  "sample_user user_id phone_number =
     \<lparr>uid = Some user_id, id_key = None, user_doc.email = None,
      user_doc.phone = Some phone_number, user_doc.displayName = None,
      user_doc.insured_sex = None, user_doc.insured_age = None,
      user_doc.insured_occupation = None, user_doc.address = None\<rparr>"

definition sample_policy :: "string \<Rightarrow> string \<Rightarrow> string \<Rightarrow> num \<Rightarrow> num \<Rightarrow> policy_doc" where
  "sample_policy policy_id user_id kind premium_paid insured =
     \<lparr>policy_doc.policyId = Some policy_id, policy_doc.policyName = None,
      policy_doc.insurance_type = Some kind, policy_doc.policy_term = None,
      policy_doc.policy_start_date = None, policy_doc.policy_end_date = None,
      policy_doc.policy_annual_premium = Some premium_paid,
      policy_doc.sum_insured = Some insured,
      policy_doc.policy_state = None, policy_doc.policy_city = None,
      policy_doc.holderName = None, policy_doc.userId = Some user_id\<rparr>"

definition sample_claim ::
  "string \<Rightarrow> string \<Rightarrow> string \<Rightarrow> string \<Rightarrow> num \<Rightarrow> string \<Rightarrow> num \<Rightarrow> claim_doc" where
  "sample_claim claim_id policy_id user_id kind amount day score =
     \<lparr>claim_doc.claimId = Some claim_id, claim_doc.policyId = Some policy_id,
      claim_doc.claimType = Some kind, claim_doc.claimAmount = Some amount,
      claim_doc.status = None, claim_doc.submittedDate = Some day,
      claim_doc.incidentDate = Some day, claim_doc.description = None,
      claim_doc.insurance_type = None, claim_doc.incident_time = None,
      claim_doc.accident_location = None, claim_doc.hospital_name = None,
      claim_doc.auto_make = None, claim_doc.auto_model = None, claim_doc.auto_year = None,
      claim_doc.userId = Some user_id, claim_doc.fraudScore = Some (Some score),
      claim_doc.riskLevel = None\<rparr>"

definition ring_users :: "user_doc list" where
  "ring_users = [sample_user ''u1'' ''555'', sample_user ''u2'' ''555'']"

definition ring_policies :: "policy_doc list" where
  "ring_policies =
     [sample_policy ''p1'' ''u1'' ''auto'' (I 1000) (I 50000),
      sample_policy ''p2'' ''u2'' ''auto'' (I 1000) (I 50000)]"

definition ring_claims :: "claim_doc list" where
  "ring_claims =
     [sample_claim ''c1'' ''p1'' ''u1'' ''collision'' (I 600000) ''01/02/2024'' (float_lit (9 / 10)),
      sample_claim ''c2'' ''p2'' ''u2'' ''collision'' (I 600000) ''01/02/2024'' (float_lit (9 / 10))]"

definition ring_graph :: graph where
  \<comment> \<open>The store after loading the sample ring.\<close>
  "ring_graph =
     (case load_data_from_firestore (\<lambda>k. ''2024-02-01T00:00:00'')
             ring_users ring_policies ring_claims fresh_graph of
        Inl e \<Rightarrow> fresh_graph
      | Inr g \<Rightarrow> g)"






section \<open>Network risk score\<close>






text \<open>
  C3. The policy-network detector scores a pair by the same function, but its query
  returns no \<^verbatim>\<open>total_amount1\<close> and \<^verbatim>\<open>total_amount2\<close> columns, so the amount bonus is
  never added. In the sample ring the two users' claims total 1,200,000: the formula on
  the combined count 2 and that total gives 0.6, which is what the phone detector
  reports for the pair, and the policy detector reports 0.3.
\<close>

theorem policy_network_score_ignores_amounts:
  "map users (detect_policy_networks ring_graph) = [[''u1'', ''u2''], [''u2'', ''u1'']]
   \<and> map risk_score (detect_policy_networks ring_graph)
       = [float_lit (3 / 10), float_lit (3 / 10)]
   \<and> num_add (total_claim_amount ring_graph [c. (u, c) \<leftarrow> filed_rels ring_graph, u = 0])
              (total_claim_amount ring_graph [c. (u, c) \<leftarrow> filed_rels ring_graph, u = 1])
       = I 1200000
   \<and> risk_formula (I 2) (I 1200000) = 6 / 10
   \<and> map risk_score (detect_phone_networks ring_graph)
       = [float_lit (6 / 10), float_lit (6 / 10)]"
  by code_simp

section \<open>Claim-network detector\<close>

text \<open>
  C6. Every network of the claim-network detector has the float \<^verbatim>\<open>0.9\<close> as its risk
  score; and two claims
  filed by different users, with the same type, the same positive amount and the same
  incident date, under policies of the same insurance type, give such a network for the
  two users.
\<close>

theorem claim_network_risk_score_fixed:
  "(\<forall>n \<in> set (detect_claim_networks g). risk_score n = float_lit (9 / 10)) \<and>
   ((u1, c1) \<in> set (filed_rels g) \<and> (u2, c2) \<in> set (filed_rels g)
    \<and> (p1, c1) \<in> set (has_claim_rels g) \<and> (p2, c2) \<in> set (has_claim_rels g)
    \<and> user_node.userId (user_nodes g ! u1) \<noteq> user_node.userId (user_nodes g ! u2)
    \<and> claimType (claim_nodes g ! c1) = claimType (claim_nodes g ! c2)
    \<and> num_eq (claim_node.claimAmount (claim_nodes g ! c1))
              (claim_node.claimAmount (claim_nodes g ! c2))
    \<and> claim_node.incidentDate (claim_nodes g ! c1) = claim_node.incidentDate (claim_nodes g ! c2)
    \<and> num_less (I 0) (claim_node.claimAmount (claim_nodes g ! c1))
    \<and> policy_node.insurance_type (policy_nodes g ! p1)
         = policy_node.insurance_type (policy_nodes g ! p2)
    \<longrightarrow> (\<exists>n \<in> set (detect_claim_networks g).
           net_type n = ''claim_network''
           \<and> users n = [user_node.userId (user_nodes g ! u1), user_node.userId (user_nodes g ! u2)]
           \<and> risk_score n = float_lit (9 / 10)))"
proof (intro conjI impI)
  show "\<forall>n \<in> set (detect_claim_networks g). risk_score n = float_lit (9 / 10)"
    by (auto simp: detect_claim_networks_def claim_network_def)
next
  assume h: "(u1, c1) \<in> set (filed_rels g) \<and> (u2, c2) \<in> set (filed_rels g)
    \<and> (p1, c1) \<in> set (has_claim_rels g) \<and> (p2, c2) \<in> set (has_claim_rels g)
    \<and> user_node.userId (user_nodes g ! u1) \<noteq> user_node.userId (user_nodes g ! u2)
    \<and> claimType (claim_nodes g ! c1) = claimType (claim_nodes g ! c2)
    \<and> num_eq (claim_node.claimAmount (claim_nodes g ! c1))
              (claim_node.claimAmount (claim_nodes g ! c2))
    \<and> claim_node.incidentDate (claim_nodes g ! c1) = claim_node.incidentDate (claim_nodes g ! c2)
    \<and> num_less (I 0) (claim_node.claimAmount (claim_nodes g ! c1))
    \<and> policy_node.insurance_type (policy_nodes g ! p1)
         = policy_node.insurance_type (policy_nodes g ! p2)"
  then have pair: "(u1, c1, u2, c2) \<in> set (claim_pairs g)"
    by (force simp: claim_pairs_def)
  with h have "(u1, u2, c1, c2, p1, p2) \<in> set (claim_matches g)"
    by (force simp: claim_matches_def)
  then have "claim_network ((\<lambda>(u1, u2, c1, c2, p1, p2).
            \<lparr>claim_row.user1 = user_node.userId (user_nodes g ! u1),
             claim_row.user2 = user_node.userId (user_nodes g ! u2),
             claim_row.name1 = user_prop (user_nodes g ! u1) ''name'',
             claim_row.name2 = user_prop (user_nodes g ! u2) ''name'',
             claim_row.email1 = user_prop (user_nodes g ! u1) ''email'',
             claim_row.email2 = user_prop (user_nodes g ! u2) ''email'',
             claim_row.claim1 = claim_node.claimId (claim_nodes g ! c1),
             claim_row.claim2 = claim_node.claimId (claim_nodes g ! c2),
             claim_row.claim_type = claimType (claim_nodes g ! c1),
             claim_row.claim_amount = claim_node.claimAmount (claim_nodes g ! c1),
             claim_row.incident_date = claim_node.incidentDate (claim_nodes g ! c1),
             claim_row.insurance_type = policy_node.insurance_type (policy_nodes g ! p1)\<rparr>)
          (u1, u2, c1, c2, p1, p2))
     \<in> set (detect_claim_networks g)"
    unfolding detect_claim_networks_def claim_query_def set_map by (intro imageI)
  then show "\<exists>n \<in> set (detect_claim_networks g).
           net_type n = ''claim_network''
           \<and> users n = [user_node.userId (user_nodes g ! u1), user_node.userId (user_nodes g ! u2)]
           \<and> risk_score n = float_lit (9 / 10)"
    by (rule rev_bexI) (simp add: claim_network_def)
qed

theorem claim_network_risk_score_fixed_witness:
  "\<exists>n \<in> set (detect_claim_networks ring_graph).
      net_type n = ''claim_network'' \<and> users n = [''u1'', ''u2''] \<and> risk_score n = float_lit (9 / 10)"
proof -
  have h: "(0, 0) \<in> set (filed_rels ring_graph) \<and> (1, 1) \<in> set (filed_rels ring_graph)
    \<and> (0, 0) \<in> set (has_claim_rels ring_graph) \<and> (1, 1) \<in> set (has_claim_rels ring_graph)
    \<and> user_node.userId (user_nodes ring_graph ! 0) \<noteq> user_node.userId (user_nodes ring_graph ! 1)
    \<and> claimType (claim_nodes ring_graph ! 0) = claimType (claim_nodes ring_graph ! 1)
    \<and> num_eq (claim_node.claimAmount (claim_nodes ring_graph ! 0))
              (claim_node.claimAmount (claim_nodes ring_graph ! 1))
    \<and> claim_node.incidentDate (claim_nodes ring_graph ! 0)
        = claim_node.incidentDate (claim_nodes ring_graph ! 1)
    \<and> num_less (I 0) (claim_node.claimAmount (claim_nodes ring_graph ! 0))
    \<and> policy_node.insurance_type (policy_nodes ring_graph ! 0)
         = policy_node.insurance_type (policy_nodes ring_graph ! 1)"
    by code_simp
  have ids: "user_node.userId (user_nodes ring_graph ! 0) = ''u1''"
            "user_node.userId (user_nodes ring_graph ! 1) = ''u2''"
    by code_simp+
  from claim_network_risk_score_fixed [of ring_graph 0 0 1 1 0 1] h
  have "\<exists>n \<in> set (detect_claim_networks ring_graph).
      net_type n = ''claim_network''
      \<and> users n = [user_node.userId (user_nodes ring_graph ! 0),
                    user_node.userId (user_nodes ring_graph ! 1)]
      \<and> risk_score n = float_lit (9 / 10)"
    by blast
  then show ?thesis by (simp only: ids)
qed

section \<open>User names of policy and claim networks\<close>

lemma user_prop_name: "user_prop u ''name'' = Null"
  by (simp add: user_prop_def user_properties_def)

text \<open>
  C10. The policy and claim queries read the property \<^verbatim>\<open>name\<close>, which no user node
  has: the property map of a user node holds \<^verbatim>\<open>displayName\<close> and no \<^verbatim>\<open>name\<close>. So every
  network of the policy-network detector and of the claim-network detector has the user
  names \<^verbatim>\<open>["Unknown", "Unknown"]\<close>.
\<close>

theorem policy_claim_names_unknown:
  "\<forall>n \<in> set (detect_policy_networks g) \<union> set (detect_claim_networks g).
     user_names n = [S ''Unknown'', S ''Unknown'']"
  by (auto simp: detect_policy_networks_def detect_claim_networks_def policy_query_def
      claim_query_def policy_network_def claim_network_def user_prop_name py_or_def Let_def)

theorem policy_claim_names_unknown_witness:
  "map user_names (detect_policy_networks ring_graph @ detect_claim_networks ring_graph)
     = replicate 4 [S ''Unknown'', S ''Unknown'']"
proof -
  have len: "length (detect_policy_networks ring_graph @ detect_claim_networks ring_graph) = 4"
    by code_simp
  have "map user_names (detect_policy_networks ring_graph @ detect_claim_networks ring_graph)
      = map (\<lambda>n. [S ''Unknown'', S ''Unknown''])
          (detect_policy_networks ring_graph @ detect_claim_networks ring_graph)"
    using policy_claim_names_unknown [of ring_graph] by (intro map_cong) auto
  with len show ?thesis by (simp only: map_replicate_const)
qed

section \<open>Deduplication of networks\<close>







section \<open>Loading twice\<close>

lemma matching_map:
  assumes "\<And>x. P (f x) = Q x"
  shows "matching P (map f xs) = matching Q xs"
proof -
  have "filter (\<lambda>i. P (map f xs ! i)) [0..<length xs] = filter (\<lambda>i. Q (xs ! i)) [0..<length xs]"
    by (rule filter_cong) (simp_all add: assms)
  then show ?thesis by (simp add: matching_def)
qed

lemma create_user_node_erase:
  "map_sum id erase_time (create_user_node now user g) = create_user_node [] user (erase_time g)"
  by (simp add: create_user_node_def erase_time_def Let_def comp_def)

lemma create_policy_node_erase:
  "map_sum id erase_time (create_policy_node policy g) = create_policy_node policy (erase_time g)"
  by (simp add: create_policy_node_def erase_time_def Let_def)

lemma create_claim_node_erase:
  "map_sum id erase_time (create_claim_node claim g) = create_claim_node claim (erase_time g)"
  by (simp add: create_claim_node_def erase_time_def Let_def)

lemma for_each_erase:
  assumes "\<And>x g. map_sum id erase_time (f x g) = f' x (erase_time g)"
  shows "map_sum id erase_time (for_each f xs g) = for_each f' xs (erase_time g)"
proof (induction xs arbitrary: g)
  case Nil
  then show ?case by simp
next
  case (Cons x xs)
  show ?case
  proof (cases "f x g")
    case (Inl e)
    with assms [of x g] show ?thesis by (cases "f' x (erase_time g)") auto
  next
    case (Inr g')
    with assms [of x g] have "f' x (erase_time g) = Inr (erase_time g')"
      by (cases "f' x (erase_time g)") auto
    with Inr Cons.IH [of g'] show ?thesis by simp
  qed
qed

lemma create_owns_erase: "erase_time (create_owns policy g) = create_owns policy (erase_time g)"
  by (simp add: create_owns_def erase_time_def matching_map)

lemma create_has_claim_erase:
  "erase_time (create_has_claim claim g) = create_has_claim claim (erase_time g)"
  by (simp add: create_has_claim_def erase_time_def)

lemma create_filed_erase: "erase_time (create_filed claim g) = create_filed claim (erase_time g)"
  by (simp add: create_filed_def erase_time_def matching_map)

lemma fold_erase:
  "(\<And>x g. erase_time (f x g) = f x (erase_time g)) \<Longrightarrow>
   erase_time (fold f xs g) = fold f xs (erase_time g)"
  by (induction xs arbitrary: g) auto

lemma create_relationships_erase:
  "erase_time (create_relationships ps cs g) = create_relationships ps cs (erase_time g)"
  by (simp add: create_relationships_def fold_erase create_owns_erase create_has_claim_erase
      create_filed_erase)


lemma detach_delete_all_erase:
  "detach_delete_all (erase_time g) = erase_time (detach_delete_all g)"
  by (simp add: detach_delete_all_def erase_time_def)

lemma load_erase:
  "map_sum id erase_time (load_data_from_firestore clock us ps cs g)
     = load_data_from_firestore (\<lambda>k. []) us ps cs (erase_time g)"
proof -
  have u: "map_sum id erase_time
             (for_each (\<lambda>(k, user). create_user_node (clock k) user) xs h)
           = for_each (\<lambda>(k, user). create_user_node [] user) xs (erase_time h)" for xs h
    by (rule for_each_erase) (simp add: split_def create_user_node_erase)
  have p: "map_sum id erase_time (for_each create_policy_node xs h)
           = for_each create_policy_node xs (erase_time h)" for xs h
    by (rule for_each_erase) (rule create_policy_node_erase)
  have c: "map_sum id erase_time (for_each create_claim_node xs h)
           = for_each create_claim_node xs (erase_time h)" for xs h
    by (rule for_each_erase) (rule create_claim_node_erase)
  show ?thesis
  proof (cases "for_each (\<lambda>(k, user). create_user_node (clock k) user)
                  (zip [0..<length us] us) (detach_delete_all g)")
    case (Inl e)
    with u [of "zip [0..<length us] us" "detach_delete_all g"]
    have "for_each (\<lambda>(k, user). create_user_node [] user)
            (zip [0..<length us] us) (detach_delete_all (erase_time g)) = Inl e"
      by (simp add: detach_delete_all_erase)
    with Inl show ?thesis by (simp add: load_data_from_firestore_def)
  next
    case g1: (Inr g1)
    with u [of "zip [0..<length us] us" "detach_delete_all g"]
    have g1': "for_each (\<lambda>(k, user). create_user_node [] user)
                 (zip [0..<length us] us) (detach_delete_all (erase_time g)) = Inr (erase_time g1)"
      by (simp add: detach_delete_all_erase)
    show ?thesis
    proof (cases "for_each create_policy_node ps g1")
      case (Inl e)
      with p [of ps g1] have "for_each create_policy_node ps (erase_time g1) = Inl e"
        by simp
      with Inl g1 g1' show ?thesis by (simp add: load_data_from_firestore_def)
    next
      case g2: (Inr g2)
      with p [of ps g1] have g2': "for_each create_policy_node ps (erase_time g1) = Inr (erase_time g2)"
        by simp
      show ?thesis
      proof (cases "for_each create_claim_node cs g2")
        case (Inl e)
        with c [of cs g2] have "for_each create_claim_node cs (erase_time g2) = Inl e"
          by simp
        with Inl g1 g1' g2 g2' show ?thesis by (simp add: load_data_from_firestore_def)
      next
        case g3: (Inr g3)
        with c [of cs g2] have "for_each create_claim_node cs (erase_time g2) = Inr (erase_time g3)"
          by simp
        with g3 g1 g1' g2 g2' show ?thesis
          by (simp add: load_data_from_firestore_def create_relationships_erase)
      qed
    qed
  qed
qed



lemma for_each_invariant:
  assumes "\<And>x h h'. f x h = Inr h' \<Longrightarrow> P h \<Longrightarrow> P h'"
    and "for_each f xs g = Inr g'" and "P g"
  shows "P g'"
  using assms(2,3)
proof (induction xs arbitrary: g)
  case Nil
  then show ?case by simp
next
  case (Cons x xs)
  then show ?case by (auto split: sum.splits dest: assms(1))
qed

lemma fold_invariant:
  "(\<And>x h. P h \<Longrightarrow> P (f x h)) \<Longrightarrow> P g \<Longrightarrow> P (fold f xs g)"
  by (induction xs arbitrary: g) auto

lemma load_keeps_constraints:
  assumes "load_data_from_firestore clock us ps cs g = Inr g1"
  shows "detach_delete_all g1 = detach_delete_all g"
proof -
  let ?P = "\<lambda>h. detach_delete_all h = detach_delete_all g"
  from assms obtain h1 h2 h3 where
    h1: "for_each (\<lambda>(k, user). create_user_node (clock k) user)
           (zip [0..<length us] us) (detach_delete_all g) = Inr h1"
    and h2: "for_each create_policy_node ps h1 = Inr h2"
    and h3: "for_each create_claim_node cs h2 = Inr h3"
    and g1: "g1 = create_relationships ps cs h3"
    by (auto simp: load_data_from_firestore_def split: sum.splits)
  have su: "(\<lambda>(k, user). create_user_node (clock k) user) x h = Inr h'
      \<Longrightarrow> detach_delete_all h' = detach_delete_all h" for x h h'
    by (cases x) (auto simp: create_user_node_def detach_delete_all_def Let_def split: if_splits)
  have sp: "create_policy_node x h = Inr h' \<Longrightarrow> detach_delete_all h' = detach_delete_all h"
    for x h h'
    by (auto simp: create_policy_node_def detach_delete_all_def Let_def split: if_splits)
  have sc: "create_claim_node x h = Inr h' \<Longrightarrow> detach_delete_all h' = detach_delete_all h"
    for x h h'
    by (auto simp: create_claim_node_def detach_delete_all_def Let_def split: if_splits)
  have "?P (detach_delete_all g)" by (simp add: detach_delete_all_def)
  then have "?P h1"
    using for_each_invariant [where P = ?P, OF _ h1] su by metis
  then have "?P h2"
    using for_each_invariant [where P = ?P, OF _ h2] sp by metis
  then have "?P h3"
    using for_each_invariant [where P = ?P, OF _ h3] sc by metis
  moreover have "?P (create_owns x h)" if "?P h" for x h
    using that by (simp add: create_owns_def detach_delete_all_def)
  moreover have "?P (create_has_claim x h)" if "?P h" for x h
    using that by (simp add: create_has_claim_def detach_delete_all_def)
  moreover have "?P (create_filed x h)" if "?P h" for x h
    using that by (simp add: create_filed_def detach_delete_all_def)
  ultimately show ?thesis unfolding g1 create_relationships_def
    by (intro fold_invariant [where P = ?P]) 
qed


lemma erase_time_counts:
  "node_count (erase_time g) = node_count g" "edge_count (erase_time g) = edge_count g"
  by (simp_all add: node_count_def edge_count_def erase_time_def)

text \<open>
  C9. A load first deletes every node and relationship, so its result depends on the
  previous graph only through the installed constraints, which a load does not change.
  If a load of \<open>(users, policies, claims)\<close> succeeds, a second load of the same input
  on the resulting graph succeeds as well, and gives the same graph up to the creation
  times of the user nodes (the clock may have moved): the same number of nodes and the
  same number of relationships.
\<close>

theorem load_idempotent:
  assumes "load_data_from_firestore clock us ps cs g = Inr g1"
  shows "\<exists>g2. load_data_from_firestore clock' us ps cs g1 = Inr g2
           \<and> erase_time g2 = erase_time g1
           \<and> node_count g2 = node_count g1 \<and> edge_count g2 = edge_count g1"
proof -
  have "load_data_from_firestore clock' us ps cs g1 = load_data_from_firestore clock' us ps cs g"
    using load_keeps_constraints [OF assms] by (simp add: load_data_from_firestore_def)
  moreover have "map_sum id erase_time (load_data_from_firestore clock' us ps cs g)
      = map_sum id erase_time (load_data_from_firestore clock us ps cs g)"
    by (simp only: load_erase)
  then obtain g2 where "load_data_from_firestore clock' us ps cs g = Inr g2"
    and e: "erase_time g2 = erase_time g1"
    using assms by (cases "load_data_from_firestore clock' us ps cs g") auto
  ultimately show ?thesis
    using erase_time_counts [of g2] erase_time_counts [of g1] by (auto simp: e)
qed

theorem load_idempotent_witness:
  "\<exists>g2. load_data_from_firestore (\<lambda>k. ''2024-03-01T00:00:00'')
            ring_users ring_policies ring_claims ring_graph = Inr g2
         \<and> node_count g2 = 6 \<and> edge_count g2 = 6"
proof -
  have h: "load_data_from_firestore (\<lambda>k. ''2024-02-01T00:00:00'')
             ring_users ring_policies ring_claims fresh_graph = Inr ring_graph"
    by code_simp
  have n: "node_count ring_graph = 6" "edge_count ring_graph = 6"
    by code_simp+
  from load_idempotent [OF h, of "\<lambda>k. ''2024-03-01T00:00:00''"] n
  show ?thesis by auto
qed

section \<open>Phone-network detection on a two-user ring\<close>














section \<open>Grouping and ranking\<close>

lemma group_values_nonempty:
  "k \<in> fst ` set rows \<Longrightarrow> [v. (k', v) \<leftarrow> rows, k' = k] \<noteq> []"
  by (induction rows) auto


lemma length_collect_by: "length (collect_by rows) = card (fst ` set rows)"
  by (simp add: collect_by_def length_remdups_card_conv)




section \<open>High-fraud-score users\<close>









section \<open>Rapid filers and the fallback\<close>








section \<open>User risk scores\<close>









end
